theory Spec2Isabelle
  imports Complex_Main "HOL-Library.Sublist"
begin

section \<open>Python values\<close>

text \<open>
  A Python \<open>str\<close> is a sequence of Unicode code points, so \<open>len\<close> and slicing count
  code points. It is modelled as a list of natural numbers; \<open>lit\<close> turns an ASCII literal
  into such a list, and the accented letters of the French messages are written by their
  code points (233 is e-acute, 234 e-circumflex, 39 the apostrophe).
  Dictionary keys are only ever looked up by ASCII literals and are kept as \<open>string\<close>.
\<close>

type_synonym pystr = "nat list"

definition lit :: "string \<Rightarrow> pystr" where
  "lit s = map of_char s"

text \<open>\<open>str.isspace\<close> on one code point: the characters \<open>str.strip()\<close> removes.\<close>

definition isspace :: "nat \<Rightarrow> bool" where
  "isspace c \<longleftrightarrow>
     (9 \<le> c \<and> c \<le> 13) \<or> (28 \<le> c \<and> c \<le> 32) \<or> c = 133 \<or> c = 160 \<or> c = 5760 \<or>
     (8192 \<le> c \<and> c \<le> 8202) \<or> c = 8232 \<or> c = 8233 \<or> c = 8239 \<or> c = 8287 \<or> c = 12288"

definition strip :: "pystr \<Rightarrow> pystr" where
  "strip s = rev (dropWhile isspace (rev (dropWhile isspace s)))"

text \<open>
  \<open>str.lower()\<close>: exact on ASCII and Latin-1, and on the two code points outside them
  whose lower case contains an ASCII letter (U+0130 and the Kelvin sign U+212A). The rest of
  the Unicode case table is not reproduced; it produces no ASCII letter, so the tests
  below, which look for ASCII words, are not affected.
\<close>

definition lower_cp :: "nat \<Rightarrow> pystr" where
  "lower_cp c =
     (if 65 \<le> c \<and> c \<le> 90 then [c + 32]
      else if 192 \<le> c \<and> c \<le> 222 \<and> c \<noteq> 215 then [c + 32]
      else if c = 304 then [105, 775]
      else if c = 8490 then [107]
      else [c])"

definition lower :: "pystr \<Rightarrow> pystr" where
  "lower s = concat (map lower_cp s)"

text \<open>\<open>p in s\<close> on strings: \<open>p\<close> occurs in \<open>s\<close> as a contiguous run.\<close>

fun contains :: "pystr \<Rightarrow> pystr \<Rightarrow> bool" where
  "contains p [] = (p = [])"
| "contains p (x # xs) = (prefix p (x # xs) \<or> contains p xs)"

text \<open>
  Exceptions, one constructor for each class the handlers tell apart. The argument is
  the text \<open>str(e)\<close> gives, except for \<open>HTTPException\<close>, which carries its status code
  and detail, and \<open>KeyError\<close>, which carries the missing key.
  \<open>ConnectTimeout\<close> is the \<open>requests\<close> class that inherits from both \<open>ConnectionError\<close>
  and \<open>Timeout\<close>.
\<close>

datatype exc =
    HTTPException nat pystr
  | RuntimeError pystr
  | Timeout pystr
  | ConnectTimeout pystr
  | ConnectionError pystr
  | KeyError string
  | AttributeError pystr
  | TypeError pystr
  | Exception pystr

text \<open>The decimal digits of a number, as an f-string writes it.\<close>

fun decimal :: "nat \<Rightarrow> pystr" where
  "decimal n = (if n < 10 then [48 + n] else decimal (n div 10) @ [48 + n mod 10])"

text \<open>
  \<open>str(e)\<close>. For an \<open>HTTPException\<close> it is the status code, a colon and the detail
  (Starlette's \<open>__str__\<close>); for a \<open>KeyError\<close> it is the key in quotes.
\<close>

definition str_exc :: "exc \<Rightarrow> pystr" where
  "str_exc e =
     (case e of
        HTTPException status detail \<Rightarrow> decimal status @ lit '': '' @ detail
      | RuntimeError m \<Rightarrow> m
      | Timeout m \<Rightarrow> m
      | ConnectTimeout m \<Rightarrow> m
      | ConnectionError m \<Rightarrow> m
      | KeyError key \<Rightarrow> [39] @ lit key @ [39]
      | AttributeError m \<Rightarrow> m
      | TypeError m \<Rightarrow> m
      | Exception m \<Rightarrow> m)"

section \<open>Ingestion/Answer Service: data and external collaborators\<close>

datatype mval = MStr pystr | MInt int

record document =
  page_content :: pystr
  metadata :: "string \<rightharpoonup> mval"

text \<open>
  The process-wide clients of \<open>rag_pipeline.py\<close> (Pinecone client, embeddings, completion
  model, PDF loader, text splitter) are calls into other people's code. Each is a field of
  this record, so that every theorem below holds for whatever they answer:
  \<^item> \<open>list_indexes\<close>, \<open>create_index\<close>, \<open>describe_index_ready\<close>: the index administration
    calls; the last one is the answer of the n-th poll of \<open>status["ready"]\<close>;
  \<^item> \<open>PyPDFLoader_load\<close>: the pages read from the bytes of the saved file;
  \<^item> \<open>split_text\<close>: the splitter's cut of one page text into chunk texts with their start
    offsets;
  \<^item> \<open>upsert_fault\<close>: \<open>Some (n, e)\<close> when \<open>from_documents\<close> raises \<open>e\<close> after having
    written \<open>n\<close> of the chunks, \<open>None\<close> when it writes them all;
  \<^item> \<open>from_existing_index\<close>, \<open>query_fault\<close>: the exception raised by opening the index,
    and by embedding and querying for a question, if any;
  \<^item> \<open>distance\<close>: the distance of a stored chunk from a question, by which the index
    ranks;
  \<^item> \<open>llm\<close>: the completion call on the list of (role, text) messages;
  \<^item> \<open>save_fault\<close>: the exception raised by writing an upload of that file name and
    those bytes to its temporary file (\<open>open\<close>, \<open>shutil.copyfileobj\<close>), if any.
\<close>

record services =
  PINE_CONE_AVAILABLE :: bool
  PINECONE_INDEX_NAME :: pystr
  list_indexes :: "exc + pystr list"
  create_index :: "exc option"
  describe_index_ready :: "nat \<Rightarrow> exc + bool"
  PyPDFLoader_load :: "nat list \<Rightarrow> exc + document list"
  split_text :: "pystr \<Rightarrow> (pystr \<times> int) list"
  upsert_fault :: "document list \<Rightarrow> (nat \<times> exc) option"
  from_existing_index :: "exc option"
  query_fault :: "pystr \<Rightarrow> exc option"
  distance :: "pystr \<Rightarrow> document \<Rightarrow> real"
  llm :: "(string \<times> pystr) list \<Rightarrow> exc + pystr"
  save_fault :: "pystr \<Rightarrow> nat list \<Rightarrow> exc option"

section \<open>rag\_pipeline.py\<close>

subsection \<open>Index bootstrap\<close>

text \<open>
  The polling loop \<open>while True: ... if idx.status["ready"]: break\<close> has no bound: when the
  index never reports ready it runs forever, which is the value \<open>None\<close>.
\<close>

partial_function (option) wait_until_ready ::
  "(nat \<Rightarrow> exc + bool) \<Rightarrow> nat \<Rightarrow> (exc + unit) option" where
  "wait_until_ready describe n =
     (case describe n of
        Inl e \<Rightarrow> Some (Inl e)
      | Inr ready \<Rightarrow> if ready then Some (Inr ()) else wait_until_ready describe (Suc n))"

declare wait_until_ready.simps [code]

definition ensure_pinecone_index :: "services \<Rightarrow> (exc + unit) option" where
  "ensure_pinecone_index sv =
     (if \<not> PINE_CONE_AVAILABLE sv then Some (Inl (RuntimeError (lit ''Pinecone is not available'')))
      else case list_indexes sv of
        Inl e \<Rightarrow> Some (Inl e)
      | Inr existing_indexes \<Rightarrow>
          if PINECONE_INDEX_NAME sv \<in> set existing_indexes then Some (Inr ())
          else (case create_index sv of
                  Some e \<Rightarrow> Some (Inl e)
                | None \<Rightarrow> wait_until_ready (describe_index_ready sv) 0))"

subsection \<open>Ingestion\<close>

text \<open>
  \<open>for i, page in enumerate(pages, start=1)\<close>: every page gets the document's id, and as
  page number the loader's own \<open>page\<close> entry when it has one, else its 1-based position.
\<close>

definition tag_pages :: "pystr \<Rightarrow> document list \<Rightarrow> document list" where
  "tag_pages document_id pages =
     map (\<lambda>(i, page).
            page\<lparr>metadata := (metadata page)
              (''doc_id'' \<mapsto> MStr document_id,
               ''page_number'' \<mapsto> (case metadata page ''page'' of
                                      Some v \<Rightarrow> v
                                    | None \<Rightarrow> MInt (int i)))\<rparr>)
         (zip [1 ..< Suc (length pages)] pages)"

text \<open>
  \<open>text_splitter.split_documents(pages)\<close> with \<open>add_start_index=True\<close>: each chunk of a
  page carries a copy of the page's metadata plus its start offset. Where a page is cut is
  the splitter's business (\<open>split_text\<close>).
\<close>

definition split_documents :: "services \<Rightarrow> document list \<Rightarrow> document list" where
  "split_documents sv pages =
     concat (map (\<lambda>page.
                    map (\<lambda>(chunk_text, start).
                           \<lparr>page_content = chunk_text,
                            metadata = (metadata page)(''start_index'' \<mapsto> MInt start)\<rparr>)
                        (split_text sv (page_content page)))
                 pages)"

text \<open>\<open>chunk.metadata.setdefault("doc_id", document_id)\<close>: written only where absent.\<close>

definition setdefault_doc_id :: "pystr \<Rightarrow> document \<Rightarrow> document" where
  "setdefault_doc_id document_id chunk =
     (case metadata chunk ''doc_id'' of
        Some _ \<Rightarrow> chunk
      | None \<Rightarrow> chunk\<lparr>metadata := (metadata chunk)(''doc_id'' \<mapsto> MStr document_id)\<rparr>)"

definition make_chunks :: "services \<Rightarrow> pystr \<Rightarrow> document list \<Rightarrow> document list" where
  "make_chunks sv document_id pages =
     map (setdefault_doc_id document_id) (split_documents sv (tag_pages document_id pages))"

text \<open>
  \<open>ingest_pdf(file_path, doc_id=None)\<close>. The file at \<open>file_path\<close> is given by its bytes,
  \<open>fresh_uuid\<close> is the value of \<open>str(uuid.uuid4())\<close>, and the contents of the vector index
  are passed in and returned. The result is \<open>None\<close> when the call never returns.
\<close>

definition ingest_pdf ::
  "services \<Rightarrow> document list \<Rightarrow> nat list \<Rightarrow> pystr option \<Rightarrow> pystr
     \<Rightarrow> ((exc + pystr) \<times> document list) option" where
  "ingest_pdf sv store file_bytes doc_id fresh_uuid =
     (if \<not> PINE_CONE_AVAILABLE sv
      then Some (Inl (RuntimeError (lit ''Pinecone is not available. Please check your API key.'')),
                 store)
      else case ensure_pinecone_index sv of
        None \<Rightarrow> None
      | Some (Inl e) \<Rightarrow> Some (Inl e, store)
      | Some (Inr _) \<Rightarrow>
          (let document_id = (case doc_id of
                                None \<Rightarrow> fresh_uuid
                              | Some d \<Rightarrow> if d = [] then fresh_uuid else d)
           in case PyPDFLoader_load sv file_bytes of
                Inl e \<Rightarrow> Some (Inl e, store)
              | Inr pages \<Rightarrow>
                  (let chunks = make_chunks sv document_id pages
                   in case upsert_fault sv chunks of
                        Some (n, e) \<Rightarrow> Some (Inl e, store @ take n chunks)
                      | None \<Rightarrow> Some (Inr document_id, store @ chunks))))"

subsection \<open>Retrieval\<close>

text \<open>
  The retriever is its \<open>search_kwargs\<close>: \<open>k\<close> and a metadata filter, a dictionary from
  field names to conditions, of which the code uses \<open>$eq\<close>.
\<close>

datatype cond = Eq mval

record retriever =
  search_k :: nat
  search_filter :: "(string \<times> cond) list"

definition get_retriever_for_doc :: "services \<Rightarrow> pystr \<Rightarrow> exc + retriever" where
  "get_retriever_for_doc sv doc_id =
     (if \<not> PINE_CONE_AVAILABLE sv
      then Inl (RuntimeError (lit ''Pinecone is not available. Please check your API key.''))
      else case from_existing_index sv of
        Some e \<Rightarrow> Inl e
      | None \<Rightarrow> Inr \<lparr>search_k = 5, search_filter = [(''doc_id'', Eq (MStr doc_id))]\<rparr>)"

text \<open>
  What the vector index answers to a retriever: of the stored chunks whose metadata meets
  every condition of the filter, the \<open>k\<close> nearest to the question. This is the contract of
  the index service (filtered top-k similarity query), not code of this repository.
\<close>

definition matches :: "(string \<times> cond) list \<Rightarrow> document \<Rightarrow> bool" where
  "matches flt d = list_all (\<lambda>(field, c). case c of Eq v \<Rightarrow> metadata d field = Some v) flt"

definition similarity_search ::
  "services \<Rightarrow> document list \<Rightarrow> retriever \<Rightarrow> pystr \<Rightarrow> document list" where
  "similarity_search sv store r question =
     take (search_k r)
       (sort_key (distance sv question) (filter (matches (search_filter r)) store))"

definition retriever_invoke ::
  "services \<Rightarrow> document list \<Rightarrow> retriever \<Rightarrow> pystr \<Rightarrow> exc + document list" where
  "retriever_invoke sv store r question =
     (case query_fault sv question of
        Some e \<Rightarrow> Inl e
      | None \<Rightarrow> Inr (similarity_search sv store r question))"

text \<open>\<open>sep.join(ts)\<close>.\<close>

fun join :: "pystr \<Rightarrow> pystr list \<Rightarrow> pystr" where
  "join sep [] = []"
| "join sep [t] = t"
| "join sep (t # ts) = t @ sep @ join sep ts"

definition format_docs :: "document list \<Rightarrow> pystr" where
  "format_docs docs = join [10, 10] (map page_content docs)"

definition DEFAULT_SYSTEM_PROMPT :: pystr where
  "DEFAULT_SYSTEM_PROMPT =
     lit ''You are a helpful assistant that answers questions based on the provided context. '' @
     lit ''If you cannot find the answer in the context, please say so. '' @
     lit ''Keep your answers concise and accurate.''"

definition prompt :: "pystr \<Rightarrow> pystr \<Rightarrow> (string \<times> pystr) list" where
  "prompt context question =
     [(''system'', DEFAULT_SYSTEM_PROMPT),
      (''human'', lit ''Context:'' @ [10] @ context @ [10, 10] @ lit ''Question: '' @ question)]"

text \<open>
  \<open>build_qa_chain\<close> returns the chain; everything in it but the retriever is fixed, so
  the chain is represented by its retriever. Invoking it runs the answer branch
  (retrieve, format, prompt, complete) and the \<open>source_documents\<close> branch (retrieve again),
  and gives the dictionary with both keys.
\<close>

record qa_result =
  qa_answer :: pystr
  qa_source_documents :: "document list option"

definition build_qa_chain :: "services \<Rightarrow> pystr \<Rightarrow> exc + retriever" where
  "build_qa_chain sv doc_id = get_retriever_for_doc sv doc_id"

definition qa_chain_invoke ::
  "services \<Rightarrow> document list \<Rightarrow> retriever \<Rightarrow> pystr \<Rightarrow> exc + qa_result" where
  "qa_chain_invoke sv store r question =
     (case retriever_invoke sv store r question of
        Inl e \<Rightarrow> Inl e
      | Inr context_docs \<Rightarrow>
          (case llm sv (prompt (format_docs context_docs) question) of
             Inl e \<Rightarrow> Inl e
           | Inr answer_text \<Rightarrow>
               (case retriever_invoke sv store r question of
                  Inl e \<Rightarrow> Inl e
                | Inr docs \<Rightarrow> Inr \<lparr>qa_answer = answer_text, qa_source_documents = Some docs\<rparr>)))"

section \<open>main.py\<close>

record UploadFile =
  content_type :: "pystr option"
  filename :: pystr
  file_stream :: "nat list"

record UploadResponse =
  up_doc_id :: pystr
  up_message :: pystr
  up_filename :: pystr

record ChatRequest =
  doc_id :: pystr
  question :: pystr
  history :: "(pystr \<times> pystr) list option"

record ChatResponse =
  answer :: pystr
  sources :: "(string \<rightharpoonup> mval) list"

subsection \<open>upload\_pdf\<close>

text \<open>The text of the \<open>except Exception as e\<close> clause of \<open>upload_pdf\<close>.\<close>

definition upload_error_message :: "exc \<Rightarrow> pystr" where
  "upload_error_message e =
     (if contains (lit ''PDF'') (str_exc e) \<and> contains (lit ''corrupt'') (lower (str_exc e))
      then lit ''Le fichier PDF semble corrompu ou invalide''
      else lit ''Erreur lors du traitement du PDF: '' @ str_exc e)"

text \<open>
  A handler that raises \<open>HTTPException\<close> answers with that status and detail; this is the
  \<open>Inl\<close> result. The \<open>try\<close> block first writes the upload to its temporary file, which
  can raise (\<open>save_fault\<close>), then checks the size of what it wrote, then ingests; its
  \<open>except Exception\<close> clause takes whatever any of the three raises, the \<open>HTTPException\<close>
  of the size check included. The saved file is its bytes. The first \<open>uuid4()\<close> only names
  that file; \<open>fresh_uuid\<close> is the one drawn by \<open>ingest_pdf\<close>. Creating the directory
  before the \<open>try\<close> block, reading the size and removing the file in the \<open>finally\<close>
  clause are taken to succeed.
\<close>

definition must_be_pdf :: pystr where
  "must_be_pdf = lit ''Le fichier doit '' @ [234] @ lit ''tre un PDF (application/pdf)''"

definition upload_pdf ::
  "services \<Rightarrow> document list \<Rightarrow> UploadFile \<Rightarrow> pystr
     \<Rightarrow> ((exc + UploadResponse) \<times> document list) option" where
  "upload_pdf sv store f fresh_uuid =
     (if content_type f \<noteq> Some (lit ''application/pdf'')
      then Some (Inl (HTTPException 400 must_be_pdf), store)
      else case (case save_fault sv (filename f) (file_stream f) of
                   Some e \<Rightarrow> Some (Inl e, store)
                 | None \<Rightarrow>
                     if length (file_stream f) = 0
                     then Some (Inl (HTTPException 400 (lit ''Le fichier PDF est vide'')), store)
                     else ingest_pdf sv store (file_stream f) None fresh_uuid) of
        None \<Rightarrow> None
      | Some (Inl e, store') \<Rightarrow>
          Some (Inl (HTTPException 500 (upload_error_message e)), store')
      | Some (Inr d, store') \<Rightarrow>
          Some (Inr \<lparr>up_doc_id = d,
                     up_message = lit ''PDF trait'' @ [233] @ lit '' et ing'' @ [233] @ lit ''r'' @ [233] @
                                  lit '' avec succ'' @ [232] @ lit ''s dans Azure OpenAI + Pinecone'',
                     up_filename = filename f\<rparr>,
                store'))"

subsection \<open>chat\_with\_doc\<close>

definition snippet :: "pystr \<Rightarrow> pystr" where
  "snippet t = take 250 t @ (if length t > 250 then lit ''...'' else [])"

definition source_info :: "document \<Rightarrow> (string \<rightharpoonup> mval)" where
  "source_info doc =
     [''page_number'' \<mapsto> (case metadata doc ''page_number'' of
                             Some v \<Rightarrow> v
                           | None \<Rightarrow> MStr (lit ''N/A'')),
      ''snippet'' \<mapsto> MStr (snippet (page_content doc)),
      ''doc_id'' \<mapsto> (case metadata doc ''doc_id'' of
                       Some v \<Rightarrow> v
                     | None \<Rightarrow> MStr (lit ''N/A''))]"

text \<open>\<open>for doc in result.get("source_documents", [])\<close>.\<close>

definition format_sources :: "qa_result \<Rightarrow> (string \<rightharpoonup> mval) list" where
  "format_sources result =
     map source_info (case qa_source_documents result of None \<Rightarrow> [] | Some docs \<Rightarrow> docs)"

definition document_not_found :: "pystr \<Rightarrow> pystr" where
  "document_not_found d =
     lit ''Document avec doc_id '' @ [39] @ d @ [39] @ lit '' non trouv'' @ [233] @
     lit ''. Assurez-vous que le document a '' @ [233] @ lit ''t'' @ [233] @
     lit '' correctement upload'' @ [233] @ lit ''.''"

definition timeout_detail :: pystr where
  "timeout_detail =
     lit ''D'' @ [233] @ lit ''lai d'' @ [39] @ lit ''attente d'' @ [233] @ lit ''pass'' @ [233] @
     lit '' lors de la communication avec Azure OpenAI. Veuillez r'' @ [233] @ lit ''essayer.''"

text \<open>The text of the \<open>except Exception as e\<close> clause of \<open>chat_with_doc\<close>.\<close>

definition chat_error_detail :: "pystr \<Rightarrow> exc \<Rightarrow> pystr" where
  "chat_error_detail d e =
     (if contains (lit ''index'') (lower (str_exc e)) \<or>
         contains (lit ''not found'') (lower (str_exc e))
      then document_not_found d
      else if contains (lit ''timeout'') (lower (str_exc e)) then timeout_detail
      else lit ''Erreur lors de la g'' @ [233] @ lit ''n'' @ [233] @ lit ''ration de la r'' @ [233] @
           lit ''ponse: '' @ str_exc e)"

definition chat_with_doc ::
  "services \<Rightarrow> document list \<Rightarrow> ChatRequest \<Rightarrow> exc + ChatResponse" where
  "chat_with_doc sv store request =
     (if doc_id request = [] \<or> strip (doc_id request) = []
      then Inl (HTTPException 400 (lit ''doc_id est requis''))
      else if question request = [] \<or> strip (question request) = []
      then Inl (HTTPException 400 (lit ''question est requise''))
      else case build_qa_chain sv (doc_id request) of
        Inl e \<Rightarrow> Inl (HTTPException 500 (chat_error_detail (doc_id request) e))
      | Inr qa_chain \<Rightarrow>
          (case qa_chain_invoke sv store qa_chain (question request) of
             Inl e \<Rightarrow> Inl (HTTPException 500 (chat_error_detail (doc_id request) e))
           | Inr result \<Rightarrow>
               Inr \<lparr>answer = qa_answer result, sources = format_sources result\<rparr>))"

section \<open>User-Facing Gateway (frontend/app.py)\<close>

datatype json =
    JNull
  | JBool bool
  | JNum int
  | JStr pystr
  | JArr "json list"
  | JObj "(string \<times> json) list"

definition type_name :: "json \<Rightarrow> string" where
  "type_name v =
     (case v of
        JNull \<Rightarrow> ''NoneType''
      | JBool _ \<Rightarrow> ''bool''
      | JNum _ \<Rightarrow> ''int''
      | JStr _ \<Rightarrow> ''str''
      | JArr _ \<Rightarrow> ''list''
      | JObj _ \<Rightarrow> ''dict'')"

definition no_attribute :: "json \<Rightarrow> string \<Rightarrow> exc" where
  "no_attribute v name =
     AttributeError ([39] @ lit (type_name v) @ [39] @ lit '' object has no attribute '' @
                     [39] @ lit name @ [39])"

text \<open>\<open>d.get(key, default)\<close>, \<open>d[key]\<close> and \<open>v.strip()\<close> on a decoded JSON value.\<close>

definition py_get :: "json \<Rightarrow> string \<Rightarrow> json \<Rightarrow> exc + json" where
  "py_get d key dflt =
     (case d of
        JObj kvs \<Rightarrow> Inr (case map_of kvs key of Some v \<Rightarrow> v | None \<Rightarrow> dflt)
      | _ \<Rightarrow> Inl (no_attribute d ''get''))"

definition py_getitem :: "json \<Rightarrow> string \<Rightarrow> exc + json" where
  "py_getitem d key =
     (case d of
        JObj kvs \<Rightarrow> (case map_of kvs key of Some v \<Rightarrow> Inr v | None \<Rightarrow> Inl (KeyError key))
      | JArr _ \<Rightarrow> Inl (TypeError (lit ''list indices must be integers or slices, not str''))
      | JStr _ \<Rightarrow> Inl (TypeError (lit ''string indices must be integers, not '' @ [39] @
                                    lit ''str'' @ [39]))
      | _ \<Rightarrow> Inl (TypeError ([39] @ lit (type_name d) @ [39] @ lit '' object is not subscriptable'')))"

definition py_strip :: "json \<Rightarrow> exc + pystr" where
  "py_strip v = (case v of JStr s \<Rightarrow> Inr (strip s) | _ \<Rightarrow> Inl (no_attribute v ''strip''))"

text \<open>
  A call of \<open>requests\<close> to the backend and what comes back: a response with its status
  code and the outcome of \<open>response.json()\<close>, or an exception. The backend is a function
  from calls to outcomes, and every handler returns the calls it made, in order.
\<close>

record backend_call =
  call_method :: string
  call_url :: pystr
  call_json :: "json option"
  call_timeout :: "nat option"

datatype upstream = Responded nat "exc + json" | Raised exc

definition BACKEND_API_URL :: pystr where
  "BACKEND_API_URL = lit ''http://localhost:8000''"

definition jsonify_error :: "pystr \<Rightarrow> json" where
  "jsonify_error msg = JObj [(''error'', JStr msg)]"

text \<open>
  The three \<open>except\<close> clauses of \<open>chat\<close>, in their order: \<open>Timeout\<close> first (which also
  takes \<open>ConnectTimeout\<close>), then \<open>ConnectionError\<close>, then any other exception.
\<close>

definition request_too_long :: pystr where
  "request_too_long =
     lit ''La requ'' @ [234] @ lit ''te a pris trop de temps. Veuillez r'' @ [233] @ lit ''essayer.''"

definition cannot_connect :: pystr where
  "cannot_connect = lit ''Impossible de se connecter au serveur backend''"

definition chat_except :: "exc \<Rightarrow> json \<times> nat" where
  "chat_except e =
     (case e of
        Timeout _ \<Rightarrow> (jsonify_error request_too_long, 408)
      | ConnectTimeout _ \<Rightarrow> (jsonify_error request_too_long, 408)
      | ConnectionError _ \<Rightarrow> (jsonify_error cannot_connect, 500)
      | _ \<Rightarrow> (jsonify_error (lit ''Erreur: '' @ str_exc e), 500))"

text \<open>
  \<open>chat()\<close>: \<open>session\<close> is the Flask session, \<open>data\<close> the decoded request body and
  \<open>timestamp\<close> the formatted \<open>datetime.now()\<close>. The result is the (body, status) pair the
  view returns, or \<open>Inl\<close> of the exception it lets escape (the reads of \<open>data\<close> before the
  \<open>try\<close> block), together with the backend calls made.
\<close>

text \<open>The one backend call of \<open>chat\<close>: \<open>requests.post(url, json=payload, timeout=30)\<close>.\<close>

definition chat_call :: "json \<Rightarrow> pystr \<Rightarrow> json \<Rightarrow> backend_call" where
  "chat_call session_doc_id question_text hist =
     \<lparr>call_method = ''POST'',
      call_url = BACKEND_API_URL @ lit ''/chat'',
      call_json = Some (JObj [(''doc_id'', session_doc_id),
                              (''question'', JStr question_text),
                              (''history'', hist)]),
      call_timeout = Some 30\<rparr>"

definition chat_try ::
  "(backend_call \<Rightarrow> upstream) \<Rightarrow> pystr \<Rightarrow> json \<Rightarrow> json \<Rightarrow> pystr
     \<Rightarrow> (json \<times> nat) \<times> backend_call list" where
  "chat_try backend timestamp session_doc_id data question_text =
     (case py_get data ''history'' (JArr []) of
        Inl e \<Rightarrow> (chat_except e, [])
      | Inr hist \<Rightarrow>
          (let call = chat_call session_doc_id question_text hist
           in (case backend call of
                 Raised e \<Rightarrow> chat_except e
               | Responded status_code body \<Rightarrow>
                   if status_code = 200
                   then (case body of
                           Inl e \<Rightarrow> chat_except e
                         | Inr d \<Rightarrow>
                             (case py_getitem d ''answer'' of
                                Inl e \<Rightarrow> chat_except e
                              | Inr a \<Rightarrow>
                                  (case py_get d ''sources'' (JArr []) of
                                     Inl e \<Rightarrow> chat_except e
                                   | Inr srcs \<Rightarrow>
                                       (JObj [(''success'', JBool True),
                                              (''answer'', a),
                                              (''sources'', srcs),
                                              (''timestamp'', JStr timestamp)], 200))))
                   else (case body of
                           Inl e \<Rightarrow> chat_except e
                         | Inr d \<Rightarrow>
                             (case py_get d ''detail''
                                     (JStr (lit ''Erreur lors de la g'' @ [233] @ lit ''n'' @ [233] @
                                            lit ''ration'')) of
                                Inl e \<Rightarrow> chat_except e
                              | Inr detail \<Rightarrow> (JObj [(''error'', detail)], 500))),
               [call])))"

definition upload_first :: pystr where
  "upload_first = lit ''Veuillez d'' @ [39] @ lit ''abord uploader un PDF''"

definition chat ::
  "(backend_call \<Rightarrow> upstream) \<Rightarrow> pystr \<Rightarrow> (string \<rightharpoonup> json) \<Rightarrow> json
     \<Rightarrow> (exc + json \<times> nat) \<times> backend_call list" where
  "chat backend timestamp session data =
     (case session ''doc_id'' of
        None \<Rightarrow>
          (Inr (jsonify_error upload_first, 400), [])
      | Some session_doc_id \<Rightarrow>
          (case py_get data ''question'' (JStr []) of
             Inl e \<Rightarrow> (Inl e, [])
           | Inr q \<Rightarrow>
               (case py_strip q of
                  Inl e \<Rightarrow> (Inl e, [])
                | Inr question_text \<Rightarrow>
                    if question_text = []
                    then (Inr (jsonify_error (lit ''La question ne peut pas '' @ [234] @
                                              lit ''tre vide''), 400), [])
                    else (case chat_try backend timestamp session_doc_id data question_text of
                            (response, calls) \<Rightarrow> (Inr response, calls)))))"

text \<open>\<open>reset_session()\<close>: the cleared session and the response.\<close>

definition reset_session :: "(string \<rightharpoonup> json) \<Rightarrow> (string \<rightharpoonup> json) \<times> (json \<times> nat)" where
  "reset_session session =
     (Map.empty,
      (JObj [(''success'', JBool True),
             (''message'', JStr (lit ''Session r'' @ [233] @ lit ''initialis'' @ [233] @ lit ''e''))],
       200))"

text \<open>\<open>health_check()\<close> of the Gateway; the bare \<open>except:\<close> takes every exception.\<close>

definition health_body :: "pystr \<Rightarrow> pystr \<Rightarrow> json" where
  "health_body backend_state timestamp =
     JObj [(''frontend'', JStr (lit ''healthy'')),
           (''backend'', JStr backend_state),
           (''backend_url'', JStr BACKEND_API_URL),
           (''timestamp'', JStr timestamp)]"

definition health_call :: backend_call where
  "health_call =
     \<lparr>call_method = ''GET'',
      call_url = BACKEND_API_URL @ lit ''/health'',
      call_json = None,
      call_timeout = Some 5\<rparr>"

definition health_check ::
  "(backend_call \<Rightarrow> upstream) \<Rightarrow> pystr \<Rightarrow> (json \<times> nat) \<times> backend_call list" where
  "health_check backend timestamp =
     (let call = health_call
      in (case backend call of
            Raised e \<Rightarrow> (health_body (lit ''unreachable'') timestamp, 503)
          | Responded status_code body \<Rightarrow>
              (health_body (if status_code = 200 then lit ''healthy'' else lit ''unreachable'')
                           timestamp, 200),
          [call]))"

section \<open>Example inputs\<close>

text \<open>
  A backend whose collaborators all answer: the upload is saved, the index exists, the
  loader reads the three pages of \<open>report.pdf\<close>, the splitter leaves each page in one
  chunk, and the completion model gives a fixed answer. \<open>PyPDFLoader\<close> numbers the pages from 0 in the \<open>page\<close>
  entry of their metadata.
\<close>

definition report_pages :: "document list" where
  "report_pages =
     [\<lparr>page_content = lit ''Summary: sales grew.'',
       metadata = [''source'' \<mapsto> MStr (lit ''report.pdf''), ''page'' \<mapsto> MInt 0]\<rparr>,
      \<lparr>page_content = lit ''Details of the year.'',
       metadata = [''source'' \<mapsto> MStr (lit ''report.pdf''), ''page'' \<mapsto> MInt 1]\<rparr>,
      \<lparr>page_content = lit ''Outlook.'',
       metadata = [''source'' \<mapsto> MStr (lit ''report.pdf''), ''page'' \<mapsto> MInt 2]\<rparr>]"

definition demo_services :: services where
  "demo_services =
     \<lparr>PINE_CONE_AVAILABLE = True,
      PINECONE_INDEX_NAME = lit ''azure-openai-rag-index'',
      list_indexes = Inr [lit ''azure-openai-rag-index''],
      create_index = None,
      describe_index_ready = (\<lambda>n. Inr True),
      PyPDFLoader_load = (\<lambda>bytes. Inr report_pages),
      split_text = (\<lambda>t. [(t, 0)]),
      upsert_fault = (\<lambda>chunks. None),
      from_existing_index = None,
      query_fault = (\<lambda>q. None),
      distance = (\<lambda>q d. 0),
      llm = (\<lambda>messages. Inr (lit ''Sales grew.'')),
      save_fault = (\<lambda>name bytes. None)\<rparr>"

text \<open>The same backend with a completion model that answers with the human message it
  was sent, so that the answer shows the context.\<close>

definition echo_services :: services where
  "echo_services =
     demo_services\<lparr>llm := (\<lambda>messages. case map_of messages ''human'' of
                                             Some t \<Rightarrow> Inr t
                                           | None \<Rightarrow> Inr [])\<rparr>"

text \<open>An index holding chunks of two documents, one of them longer than 250 characters
  and without a page number.\<close>

definition two_doc_store :: "document list" where
  "two_doc_store =
     [\<lparr>page_content = lit ''Alpha.'',
       metadata = [''doc_id'' \<mapsto> MStr (lit ''d1''), ''page_number'' \<mapsto> MInt 1]\<rparr>,
      \<lparr>page_content = lit ''Beta.'',
       metadata = [''doc_id'' \<mapsto> MStr (lit ''d2''), ''page_number'' \<mapsto> MInt 1]\<rparr>,
      \<lparr>page_content = replicate 251 120,
       metadata = [''doc_id'' \<mapsto> MStr (lit ''d1'')]\<rparr>]"

text \<open>A chunk with no metadata at all.\<close>

definition loose_chunk :: document where
  "loose_chunk = \<lparr>page_content = lit ''Loose text.'', metadata = Map.empty\<rparr>"

definition summary_request :: "pystr \<Rightarrow> ChatRequest" where
  "summary_request d = \<lparr>doc_id = d, question = lit ''What is the summary?'', history = None\<rparr>"

definition pdf_upload :: "nat list \<Rightarrow> UploadFile" where
  "pdf_upload bytes =
     \<lparr>content_type = Some (lit ''application/pdf''), filename = lit ''report.pdf'',
      file_stream = bytes\<rparr>"

text \<open>Gateway inputs: a session after an upload, a request body, and four backends.\<close>

definition demo_session :: "string \<rightharpoonup> json" where
  "demo_session = [''doc_id'' \<mapsto> JStr (lit ''d1''), ''filename'' \<mapsto> JStr (lit ''report.pdf'')]"

definition demo_body :: json where
  "demo_body = JObj [(''question'', JStr (lit '' What is the summary? ''))]"

definition timing_out_backend :: "backend_call \<Rightarrow> upstream" where
  "timing_out_backend call = Raised (Timeout (lit ''Read timed out. (read timeout=30)''))"

definition refusing_backend :: "backend_call \<Rightarrow> upstream" where
  "refusing_backend call = Raised (ConnectionError (lit ''Connection refused''))"

definition failing_backend :: "backend_call \<Rightarrow> upstream" where
  "failing_backend call =
     Responded 500 (Inr (JObj [(''detail'', JStr (lit ''Une erreur interne est survenue''))]))"

definition healthy_backend :: "backend_call \<Rightarrow> upstream" where
  "healthy_backend call =
     Responded 200
       (Inr (JObj [(''status'', JStr (lit ''healthy'')),
                   (''message'', JStr (lit ''API RAG Chatbot est op'' @ [233] @
                                       lit ''rationnelle avec Azure OpenAI''))]))"

section \<open>Properties of retrieval\<close>

lemma matches_doc_id:
  "matches [(''doc_id'', Eq (MStr d))] c \<longleftrightarrow> metadata c ''doc_id'' = Some (MStr d)"
  by (simp add: matches_def)

lemma similarity_search_set:
  assumes "c \<in> set (similarity_search sv store r q)"
  shows "c \<in> set store \<and> matches (search_filter r) c"
proof -
  from assms have "c \<in> set (sort_key (distance sv q) (filter (matches (search_filter r)) store))"
    unfolding similarity_search_def by (rule in_set_takeD)
  then show ?thesis by simp
qed

lemma similarity_search_length: "length (similarity_search sv store r q) \<le> search_k r"
  by (simp add: similarity_search_def)

lemma get_retriever_for_doc_Inr:
  "get_retriever_for_doc sv d = Inr r \<Longrightarrow>
   r = \<lparr>search_k = 5, search_filter = [(''doc_id'', Eq (MStr d))]\<rparr>"
  by (auto simp: get_retriever_for_doc_def split: if_splits option.splits)

lemma retriever_invoke_Inr:
  "retriever_invoke sv store r q = Inr docs \<Longrightarrow> docs = similarity_search sv store r q"
  by (auto simp: retriever_invoke_def split: option.splits)

lemma qa_chain_invoke_Inr:
  "qa_chain_invoke sv store r q = Inr result \<Longrightarrow>
   qa_source_documents result = Some (similarity_search sv store r q) \<and>
   llm sv (prompt (format_docs (similarity_search sv store r q)) q) = Inr (qa_answer result)"
  by (auto simp: qa_chain_invoke_def split: sum.splits dest!: retriever_invoke_Inr)

lemma chat_with_doc_Inr:
  assumes "chat_with_doc sv store request = Inr response"
  shows "sources response =
           map source_info
             (similarity_search sv store
                \<lparr>search_k = 5, search_filter = [(''doc_id'', Eq (MStr (doc_id request)))]\<rparr>
                (question request))"
    and "llm sv (prompt (format_docs
             (similarity_search sv store
                \<lparr>search_k = 5, search_filter = [(''doc_id'', Eq (MStr (doc_id request)))]\<rparr>
                (question request))) (question request)) = Inr (answer response)"
proof -
  from assms obtain r result where
    r: "build_qa_chain sv (doc_id request) = Inr r" and
    res: "qa_chain_invoke sv store r (question request) = Inr result" and
    resp: "response = \<lparr>answer = qa_answer result, sources = format_sources result\<rparr>"
    by (auto simp: chat_with_doc_def split: if_splits sum.splits)
  from r have r_eq: "r = \<lparr>search_k = 5, search_filter = [(''doc_id'', Eq (MStr (doc_id request)))]\<rparr>"
    unfolding build_qa_chain_def by (rule get_retriever_for_doc_Inr)
  from qa_chain_invoke_Inr [OF res] resp r_eq
  show "sources response =
           map source_info
             (similarity_search sv store
                \<lparr>search_k = 5, search_filter = [(''doc_id'', Eq (MStr (doc_id request)))]\<rparr>
                (question request))"
    by (simp add: format_sources_def)
  from qa_chain_invoke_Inr [OF res] resp r_eq
  show "llm sv (prompt (format_docs
             (similarity_search sv store
                \<lparr>search_k = 5, search_filter = [(''doc_id'', Eq (MStr (doc_id request)))]\<rparr>
                (question request))) (question request)) = Inr (answer response)"
    by simp
qed

lemma source_info_doc_id:
  "metadata c ''doc_id'' = Some v \<Longrightarrow> source_info c ''doc_id'' = Some v"
  by (simp add: source_info_def)

lemma qa_chain_invoke_retrieves:
  "qa_chain_invoke sv store r q = Inr result \<Longrightarrow>
   retriever_invoke sv store r q = Inr (similarity_search sv store r q)"
  by (auto simp: qa_chain_invoke_def split: sum.splits dest: retriever_invoke_Inr)

text \<open>
  C1. The chain built for a document retrieves with \<open>k = 5\<close> and the filter
  \<open>doc_id $eq d\<close>; whatever it retrieves is at most five stored chunks whose metadata
  \<open>doc_id\<close> is \<open>d\<close>. When the chain returns, the context that was sent to the completion
  model and the source documents are both that filtered retrieval. So the answer of a
  chat response is the completion for a context made of chunks of the requested document
  only, and its citations are made from the same chunks, each carrying the requested
  \<open>doc_id\<close>.
\<close>

theorem retrieval_restricted_to_doc_id:
  "(build_qa_chain sv d = Inr r \<longrightarrow>
      search_k r = 5 \<and> search_filter r = [(''doc_id'', Eq (MStr d))]) \<and>
   (build_qa_chain sv d = Inr r \<and> retriever_invoke sv store r q = Inr docs \<longrightarrow>
      length docs \<le> 5 \<and>
      (\<forall>c \<in> set docs. c \<in> set store \<and> metadata c ''doc_id'' = Some (MStr d))) \<and>
   (build_qa_chain sv d = Inr r \<and> qa_chain_invoke sv store r q = Inr result \<longrightarrow>
      retriever_invoke sv store r q = Inr (similarity_search sv store r q) \<and>
      llm sv (prompt (format_docs (similarity_search sv store r q)) q) = Inr (qa_answer result) \<and>
      qa_source_documents result = Some (similarity_search sv store r q)) \<and>
   (chat_with_doc sv store request = Inr response \<longrightarrow>
      sources response =
        map source_info
          (similarity_search sv store
             \<lparr>search_k = 5, search_filter = [(''doc_id'', Eq (MStr (doc_id request)))]\<rparr>
             (question request)) \<and>
      llm sv (prompt (format_docs
            (similarity_search sv store
               \<lparr>search_k = 5, search_filter = [(''doc_id'', Eq (MStr (doc_id request)))]\<rparr>
               (question request))) (question request)) = Inr (answer response) \<and>
      (\<forall>c \<in> set (similarity_search sv store
                    \<lparr>search_k = 5, search_filter = [(''doc_id'', Eq (MStr (doc_id request)))]\<rparr>
                    (question request)).
         c \<in> set store \<and> metadata c ''doc_id'' = Some (MStr (doc_id request))) \<and>
      (\<forall>s \<in> set (sources response). s ''doc_id'' = Some (MStr (doc_id request))))"
proof (intro conjI impI)
  assume "build_qa_chain sv d = Inr r"
  then have "r = \<lparr>search_k = 5, search_filter = [(''doc_id'', Eq (MStr d))]\<rparr>"
    unfolding build_qa_chain_def by (rule get_retriever_for_doc_Inr)
  then show "search_k r = 5" and "search_filter r = [(''doc_id'', Eq (MStr d))]"
    by simp_all
next
  assume a: "build_qa_chain sv d = Inr r \<and> retriever_invoke sv store r q = Inr docs"
  then have r: "r = \<lparr>search_k = 5, search_filter = [(''doc_id'', Eq (MStr d))]\<rparr>"
    unfolding build_qa_chain_def by (auto dest: get_retriever_for_doc_Inr)
  from a have docs: "docs = similarity_search sv store r q"
    by (auto dest: retriever_invoke_Inr)
  from similarity_search_length [of sv store r q] r docs show "length docs \<le> 5"
    by simp
  show "\<forall>c \<in> set docs. c \<in> set store \<and> metadata c ''doc_id'' = Some (MStr d)"
  proof
    fix c assume "c \<in> set docs"
    with docs have "c \<in> set store \<and> matches (search_filter r) c"
      by (auto dest: similarity_search_set)
    with r show "c \<in> set store \<and> metadata c ''doc_id'' = Some (MStr d)"
      by (simp add: matches_doc_id)
  qed
next
  assume a: "build_qa_chain sv d = Inr r \<and> qa_chain_invoke sv store r q = Inr result"
  then have inv: "qa_chain_invoke sv store r q = Inr result" by simp
  from qa_chain_invoke_retrieves [OF inv]
  show "retriever_invoke sv store r q = Inr (similarity_search sv store r q)" .
  from qa_chain_invoke_Inr [OF inv]
  show "llm sv (prompt (format_docs (similarity_search sv store r q)) q) = Inr (qa_answer result)"
    and "qa_source_documents result = Some (similarity_search sv store r q)"
    by simp_all
next
  assume a: "chat_with_doc sv store request = Inr response"
  from chat_with_doc_Inr(1) [OF a]
  show src: "sources response =
        map source_info
          (similarity_search sv store
             \<lparr>search_k = 5, search_filter = [(''doc_id'', Eq (MStr (doc_id request)))]\<rparr>
             (question request))" .
  from chat_with_doc_Inr(2) [OF a]
  show "llm sv (prompt (format_docs
            (similarity_search sv store
               \<lparr>search_k = 5, search_filter = [(''doc_id'', Eq (MStr (doc_id request)))]\<rparr>
               (question request))) (question request)) = Inr (answer response)" .
  show ctx: "\<forall>c \<in> set (similarity_search sv store
                    \<lparr>search_k = 5, search_filter = [(''doc_id'', Eq (MStr (doc_id request)))]\<rparr>
                    (question request)).
         c \<in> set store \<and> metadata c ''doc_id'' = Some (MStr (doc_id request))"
  proof
    fix c
    assume "c \<in> set (similarity_search sv store
                    \<lparr>search_k = 5, search_filter = [(''doc_id'', Eq (MStr (doc_id request)))]\<rparr>
                    (question request))"
    from similarity_search_set [OF this]
    show "c \<in> set store \<and> metadata c ''doc_id'' = Some (MStr (doc_id request))"
      by (simp add: matches_doc_id)
  qed
  show "\<forall>s \<in> set (sources response). s ''doc_id'' = Some (MStr (doc_id request))"
  proof
    fix s assume "s \<in> set (sources response)"
    with src obtain c where
      c: "c \<in> set (similarity_search sv store
             \<lparr>search_k = 5, search_filter = [(''doc_id'', Eq (MStr (doc_id request)))]\<rparr>
             (question request))" and s: "s = source_info c"
      by auto
    from ctx c have "metadata c ''doc_id'' = Some (MStr (doc_id request))"
      by blast
    with s show "s ''doc_id'' = Some (MStr (doc_id request))"
      by (simp add: source_info_doc_id)
  qed
qed

lemmas demo_eval =
  chat_with_doc_def build_qa_chain_def get_retriever_for_doc_def qa_chain_invoke_def
  retriever_invoke_def similarity_search_def demo_services_def matches_def strip_def
  isspace_def lit_def format_sources_def summary_request_def

lemmas echo_eval =
  echo_services_def prompt_def format_docs_def demo_eval

theorem retrieval_restricted_to_doc_id_witness:
  "build_qa_chain echo_services (lit ''d1'') =
     Inr \<lparr>search_k = 5, search_filter = [(''doc_id'', Eq (MStr (lit ''d1'')))]\<rparr> \<and>
   retriever_invoke echo_services two_doc_store
     \<lparr>search_k = 5, search_filter = [(''doc_id'', Eq (MStr (lit ''d1'')))]\<rparr>
     (lit ''What is the summary?'') = Inr [two_doc_store ! 0, two_doc_store ! 2] \<and>
   qa_chain_invoke echo_services two_doc_store
     \<lparr>search_k = 5, search_filter = [(''doc_id'', Eq (MStr (lit ''d1'')))]\<rparr>
     (lit ''What is the summary?'') =
     Inr \<lparr>qa_answer = lit ''Context:'' @ [10] @ lit ''Alpha.'' @ [10, 10] @ replicate 251 120 @
                       [10, 10] @ lit ''Question: What is the summary?'',
          qa_source_documents = Some [two_doc_store ! 0, two_doc_store ! 2]\<rparr> \<and>
   chat_with_doc echo_services two_doc_store (summary_request (lit ''d1'')) =
     Inr \<lparr>answer = lit ''Context:'' @ [10] @ lit ''Alpha.'' @ [10, 10] @ replicate 251 120 @
                    [10, 10] @ lit ''Question: What is the summary?'',
          sources = [source_info (two_doc_store ! 0), source_info (two_doc_store ! 2)]\<rparr> \<and>
   llm echo_services
     (prompt (format_docs [two_doc_store ! 0, two_doc_store ! 2]) (lit ''What is the summary?'')) =
     Inr (lit ''Context:'' @ [10] @ lit ''Alpha.'' @ [10, 10] @ replicate 251 120 @
          [10, 10] @ lit ''Question: What is the summary?'') \<and>
   metadata (two_doc_store ! 0) ''doc_id'' = Some (MStr (lit ''d1'')) \<and>
   metadata (two_doc_store ! 2) ''doc_id'' = Some (MStr (lit ''d1'')) \<and>
   source_info (two_doc_store ! 0) ''doc_id'' = Some (MStr (lit ''d1'')) \<and>
   source_info (two_doc_store ! 2) ''doc_id'' = Some (MStr (lit ''d1''))"
proof -
  let ?r = "\<lparr>search_k = 5, search_filter = [(''doc_id'', Eq (MStr (lit ''d1'')))]\<rparr>"
  let ?q = "lit ''What is the summary?''"
  let ?docs = "[two_doc_store ! 0, two_doc_store ! 2]"
  let ?a = "lit ''Context:'' @ [10] @ lit ''Alpha.'' @ [10, 10] @ replicate 251 120 @
            [10, 10] @ lit ''Question: What is the summary?''"
  let ?result = "\<lparr>qa_answer = ?a, qa_source_documents = Some ?docs\<rparr>"
  let ?response = "\<lparr>answer = ?a,
                    sources = [source_info (two_doc_store ! 0), source_info (two_doc_store ! 2)]\<rparr>"
  have b: "build_qa_chain echo_services (lit ''d1'') = Inr ?r"
    by (simp add: echo_eval)
  have r: "retriever_invoke echo_services two_doc_store ?r ?q = Inr ?docs"
    by (simp add: echo_eval two_doc_store_def)
  have i: "qa_chain_invoke echo_services two_doc_store ?r ?q = Inr ?result"
    by (simp add: echo_eval two_doc_store_def)
  have c: "chat_with_doc echo_services two_doc_store (summary_request (lit ''d1'')) = Inr ?response"
    by (simp add: echo_eval two_doc_store_def)
  note t = retrieval_restricted_to_doc_id
    [where sv = echo_services and d = "lit ''d1''" and r = ?r and store = two_doc_store
       and q = ?q and docs = ?docs and result = ?result
       and request = "summary_request (lit ''d1'')" and response = ?response]
  from t b r have m: "\<forall>c \<in> set ?docs.
      c \<in> set two_doc_store \<and> metadata c ''doc_id'' = Some (MStr (lit ''d1''))"
    by blast
  from t b i have
    ri: "retriever_invoke echo_services two_doc_store ?r ?q =
           Inr (similarity_search echo_services two_doc_store ?r ?q)" and
    l0: "llm echo_services
           (prompt (format_docs (similarity_search echo_services two_doc_store ?r ?q)) ?q) =
         Inr (qa_answer ?result)"
    by blast+
  from ri r have ss: "similarity_search echo_services two_doc_store ?r ?q = ?docs"
    by simp
  from l0 ss have l: "llm echo_services (prompt (format_docs ?docs) ?q) = Inr ?a"
    by simp
  from t c have "\<forall>s \<in> set (sources ?response).
      s ''doc_id'' = Some (MStr (doc_id (summary_request (lit ''d1''))))"
    by blast
  then have s: "source_info (two_doc_store ! 0) ''doc_id'' = Some (MStr (lit ''d1'')) \<and>
                source_info (two_doc_store ! 2) ''doc_id'' = Some (MStr (lit ''d1''))"
    by (simp add: summary_request_def)
  from m have m': "metadata (two_doc_store ! 0) ''doc_id'' = Some (MStr (lit ''d1'')) \<and>
                   metadata (two_doc_store ! 2) ''doc_id'' = Some (MStr (lit ''d1''))"
    by simp
  from b r i c l m' s show ?thesis by blast
qed

section \<open>Properties of ingestion\<close>

lemma tag_pages_doc_id:
  "p \<in> set (tag_pages d pages) \<Longrightarrow> metadata p ''doc_id'' = Some (MStr d)"
  by (auto simp: tag_pages_def)

lemma split_documents_doc_id:
  assumes "\<And>p. p \<in> set pages \<Longrightarrow> metadata p ''doc_id'' = Some v"
    and "c \<in> set (split_documents sv pages)"
  shows "metadata c ''doc_id'' = Some v"
  using assms by (auto simp: split_documents_def)

lemma setdefault_doc_id_keeps:
  "metadata c ''doc_id'' = Some v \<Longrightarrow> setdefault_doc_id d c = c"
  by (simp add: setdefault_doc_id_def)

lemma make_chunks_doc_id:
  assumes "c \<in> set (make_chunks sv d pages)"
  shows "metadata c ''doc_id'' = Some (MStr d)"
proof -
  from assms obtain c0 where
    c0: "c0 \<in> set (split_documents sv (tag_pages d pages))" and c: "c = setdefault_doc_id d c0"
    by (auto simp: make_chunks_def)
  from c0 have "metadata c0 ''doc_id'' = Some (MStr d)"
    by (rule split_documents_doc_id [rotated]) (rule tag_pages_doc_id)
  with c show ?thesis by (simp add: setdefault_doc_id_keeps)
qed

lemma ingest_pdf_Inr:
  assumes "ingest_pdf sv store bytes given fresh_uuid = Some (Inr d, store')"
  shows "\<exists>pages. PyPDFLoader_load sv bytes = Inr pages \<and> store' = store @ make_chunks sv d pages"
  using assms
  by (auto simp: ingest_pdf_def Let_def split: if_splits option.splits sum.splits prod.splits)

text \<open>
  C4. After a successful ingest the index holds what it held before followed by the
  upserted chunks, every one of which has the returned \<open>doc_id\<close> in its metadata; and the
  \<open>doc_id\<close> of a successful upload response is the one \<open>ingest_pdf\<close> returned.
\<close>

theorem ingest_tags_every_chunk:
  "(ingest_pdf sv store bytes given fresh_uuid = Some (Inr d, store') \<longrightarrow>
      take (length store) store' = store \<and>
      (\<forall>c \<in> set (drop (length store) store'). metadata c ''doc_id'' = Some (MStr d))) \<and>
   (upload_pdf sv store f fresh_uuid = Some (Inr response, store') \<longrightarrow>
      ingest_pdf sv store (file_stream f) None fresh_uuid = Some (Inr (up_doc_id response), store'))"
proof (intro conjI impI)
  assume a: "ingest_pdf sv store bytes given fresh_uuid = Some (Inr d, store')"
  from ingest_pdf_Inr [OF a] obtain pages where
    st: "store' = store @ make_chunks sv d pages" by blast
  then show "take (length store) store' = store" by simp
  from st show "\<forall>c \<in> set (drop (length store) store'). metadata c ''doc_id'' = Some (MStr d)"
    by (simp add: make_chunks_doc_id)
next
  assume "upload_pdf sv store f fresh_uuid = Some (Inr response, store')"
  then show "ingest_pdf sv store (file_stream f) None fresh_uuid =
             Some (Inr (up_doc_id response), store')"
    by (auto simp: upload_pdf_def split: if_splits option.splits sum.splits prod.splits)
qed

lemmas ingest_eval =
  ingest_pdf_def ensure_pinecone_index_def demo_services_def lit_def Let_def

lemma demo_save: "save_fault demo_services name bytes = None"
  by (simp add: demo_services_def)

lemma demo_ingest:
  "ingest_pdf demo_services two_doc_store [37, 80, 68, 70] None (lit ''u1'') =
     Some (Inr (lit ''u1''), two_doc_store @ make_chunks demo_services (lit ''u1'') report_pages)"
  by (simp add: ingest_eval)

theorem ingest_tags_every_chunk_witness:
  "ingest_pdf demo_services two_doc_store [37, 80, 68, 70] None (lit ''u1'') =
     Some (Inr (lit ''u1''), two_doc_store @ make_chunks demo_services (lit ''u1'') report_pages) \<and>
   upload_pdf demo_services two_doc_store (pdf_upload [37, 80, 68, 70]) (lit ''u1'') =
     Some (Inr \<lparr>up_doc_id = lit ''u1'',
                up_message = lit ''PDF trait'' @ [233] @ lit '' et ing'' @ [233] @ lit ''r'' @ [233] @
                             lit '' avec succ'' @ [232] @ lit ''s dans Azure OpenAI + Pinecone'',
                up_filename = lit ''report.pdf''\<rparr>,
           two_doc_store @ make_chunks demo_services (lit ''u1'') report_pages) \<and>
   take (length two_doc_store)
     (two_doc_store @ make_chunks demo_services (lit ''u1'') report_pages) = two_doc_store \<and>
   map (\<lambda>c. metadata c ''doc_id'')
     (drop (length two_doc_store)
        (two_doc_store @ make_chunks demo_services (lit ''u1'') report_pages)) =
     [Some (MStr (lit ''u1'')), Some (MStr (lit ''u1'')), Some (MStr (lit ''u1''))]"
proof -
  have u: "upload_pdf demo_services two_doc_store (pdf_upload [37, 80, 68, 70]) (lit ''u1'') =
     Some (Inr \<lparr>up_doc_id = lit ''u1'',
                up_message = lit ''PDF trait'' @ [233] @ lit '' et ing'' @ [233] @ lit ''r'' @ [233] @
                             lit '' avec succ'' @ [232] @ lit ''s dans Azure OpenAI + Pinecone'',
                up_filename = lit ''report.pdf''\<rparr>,
           two_doc_store @ make_chunks demo_services (lit ''u1'') report_pages)"
    by (simp add: upload_pdf_def pdf_upload_def demo_save demo_ingest)
  have n: "length (make_chunks demo_services (lit ''u1'') report_pages) = 3"
    by (simp add: make_chunks_def split_documents_def tag_pages_def report_pages_def
        demo_services_def)
  from ingest_tags_every_chunk
    [of demo_services two_doc_store "[37, 80, 68, 70]" None "lit ''u1''" "lit ''u1''"
        "two_doc_store @ make_chunks demo_services (lit ''u1'') report_pages"
        "pdf_upload [37, 80, 68, 70]"
        "\<lparr>up_doc_id = lit ''u1'',
          up_message = lit ''PDF trait'' @ [233] @ lit '' et ing'' @ [233] @ lit ''r'' @ [233] @
                       lit '' avec succ'' @ [232] @ lit ''s dans Azure OpenAI + Pinecone'',
          up_filename = lit ''report.pdf''\<rparr>"]
    demo_ingest
  have t: "take (length two_doc_store)
             (two_doc_store @ make_chunks demo_services (lit ''u1'') report_pages) = two_doc_store"
    and d: "\<forall>c \<in> set (drop (length two_doc_store)
             (two_doc_store @ make_chunks demo_services (lit ''u1'') report_pages)).
             metadata c ''doc_id'' = Some (MStr (lit ''u1''))"
    by blast+
  from d have "\<forall>c \<in> set (make_chunks demo_services (lit ''u1'') report_pages).
                 metadata c ''doc_id'' = Some (MStr (lit ''u1''))"
    by simp
  then have "map (\<lambda>c. metadata c ''doc_id'') (make_chunks demo_services (lit ''u1'') report_pages) =
             replicate (length (make_chunks demo_services (lit ''u1'') report_pages))
               (Some (MStr (lit ''u1'')))"
    by (simp add: map_replicate_const [symmetric] cong: map_cong)
  with n have "map (\<lambda>c. metadata c ''doc_id'')
     (drop (length two_doc_store)
        (two_doc_store @ make_chunks demo_services (lit ''u1'') report_pages)) =
     [Some (MStr (lit ''u1'')), Some (MStr (lit ''u1'')), Some (MStr (lit ''u1''))]"
    by (simp add: numeral_3_eq_3)
  with demo_ingest u t show ?thesis by blast
qed

section \<open>Properties of the chat endpoint\<close>

lemma chat_with_doc_formats_result:
  assumes "strip (doc_id request) \<noteq> []" and "strip (question request) \<noteq> []"
    and "build_qa_chain sv (doc_id request) = Inr r"
    and "qa_chain_invoke sv store r (question request) = Inr result"
  shows "chat_with_doc sv store request =
           Inr \<lparr>answer = qa_answer result, sources = format_sources result\<rparr>"
proof -
  from assms(1) have "doc_id request \<noteq> []" by (auto simp: strip_def)
  moreover from assms(2) have "question request \<noteq> []" by (auto simp: strip_def)
  ultimately show ?thesis using assms by (simp add: chat_with_doc_def)
qed

text \<open>
  C5. The snippet of a citation is the chunk's text when that has at most 250 characters,
  and its first 250 characters followed by three dots when it has more; the citations of
  a chat response are these \<open>source_info\<close> dictionaries of the retrieved chunks.
\<close>

theorem snippet_is_truncated_at_250:
  "(length (page_content doc) > 250 \<longrightarrow>
      source_info doc ''snippet'' = Some (MStr (take 250 (page_content doc) @ lit ''...''))) \<and>
   (length (page_content doc) \<le> 250 \<longrightarrow>
      source_info doc ''snippet'' = Some (MStr (page_content doc))) \<and>
   (chat_with_doc sv store request = Inr response \<longrightarrow>
      sources response =
        map source_info
          (similarity_search sv store
             \<lparr>search_k = 5, search_filter = [(''doc_id'', Eq (MStr (doc_id request)))]\<rparr>
             (question request)))"
  by (auto simp: source_info_def snippet_def dest: chat_with_doc_Inr(1))

theorem snippet_is_truncated_at_250_witness:
  "length (page_content (two_doc_store ! 2)) > 250 \<and>
   source_info (two_doc_store ! 2) ''snippet'' = Some (MStr (replicate 250 120 @ [46, 46, 46])) \<and>
   length (page_content (two_doc_store ! 0)) \<le> 250 \<and>
   source_info (two_doc_store ! 0) ''snippet'' = Some (MStr (lit ''Alpha.'')) \<and>
   chat_with_doc demo_services two_doc_store (summary_request (lit ''d1'')) =
     Inr \<lparr>answer = lit ''Sales grew.'',
          sources = [source_info (two_doc_store ! 0), source_info (two_doc_store ! 2)]\<rparr> \<and>
   [source_info (two_doc_store ! 0), source_info (two_doc_store ! 2)] =
     map source_info
       (similarity_search demo_services two_doc_store
          \<lparr>search_k = 5, search_filter = [(''doc_id'', Eq (MStr (lit ''d1'')))]\<rparr>
          (lit ''What is the summary?''))"
proof -
  have long: "length (page_content (two_doc_store ! 2)) > 250"
    and short: "length (page_content (two_doc_store ! 0)) \<le> 250"
    by (simp_all add: two_doc_store_def lit_def)
  have c: "chat_with_doc demo_services two_doc_store (summary_request (lit ''d1'')) =
     Inr \<lparr>answer = lit ''Sales grew.'',
          sources = [source_info (two_doc_store ! 0), source_info (two_doc_store ! 2)]\<rparr>"
    by (simp add: demo_eval two_doc_store_def)
  from snippet_is_truncated_at_250 [of "two_doc_store ! 2"] long
  have "source_info (two_doc_store ! 2) ''snippet'' =
          Some (MStr (take 250 (page_content (two_doc_store ! 2)) @ lit ''...''))"
    by blast
  then have s2: "source_info (two_doc_store ! 2) ''snippet'' =
                   Some (MStr (replicate 250 120 @ [46, 46, 46]))"
    by (simp add: two_doc_store_def lit_def)
  from snippet_is_truncated_at_250 [of "two_doc_store ! 0"] short
  have "source_info (two_doc_store ! 0) ''snippet'' = Some (MStr (page_content (two_doc_store ! 0)))"
    by blast
  then have s0: "source_info (two_doc_store ! 0) ''snippet'' = Some (MStr (lit ''Alpha.''))"
    by (simp add: two_doc_store_def)
  from snippet_is_truncated_at_250
    [of _ demo_services two_doc_store "summary_request (lit ''d1'')"
        "\<lparr>answer = lit ''Sales grew.'',
          sources = [source_info (two_doc_store ! 0), source_info (two_doc_store ! 2)]\<rparr>"] c
  have "sources \<lparr>answer = lit ''Sales grew.'',
          sources = [source_info (two_doc_store ! 0), source_info (two_doc_store ! 2)]\<rparr> =
     map source_info
       (similarity_search demo_services two_doc_store
          \<lparr>search_k = 5,
           search_filter = [(''doc_id'', Eq (MStr (doc_id (summary_request (lit ''d1'')))))]\<rparr>
          (question (summary_request (lit ''d1''))))"
    by blast
  then have m: "[source_info (two_doc_store ! 0), source_info (two_doc_store ! 2)] =
     map source_info
       (similarity_search demo_services two_doc_store
          \<lparr>search_k = 5, search_filter = [(''doc_id'', Eq (MStr (lit ''d1'')))]\<rparr>
          (lit ''What is the summary?''))"
    by (simp add: summary_request_def)
  from long s2 short s0 c m show ?thesis by blast
qed

text \<open>
  C10. A chunk without a \<open>page_number\<close> or \<open>doc_id\<close> entry is cited with the string
  \<open>N/A\<close> in that field. The citations of a chain result are the \<open>source_info\<close>
  dictionaries of its source documents, one for each and in their order, and none when
  the result has no \<open>source_documents\<close> or an empty list of them. Formatting never
  raises: whenever the chain returns a result, the response is that result's answer with
  these citations, and the cited chunks are the retrieved ones.
\<close>

theorem missing_metadata_cited_as_NA:
  "(metadata doc ''page_number'' = None \<longrightarrow>
      source_info doc ''page_number'' = Some (MStr (lit ''N/A''))) \<and>
   (metadata doc ''doc_id'' = None \<longrightarrow>
      source_info doc ''doc_id'' = Some (MStr (lit ''N/A''))) \<and>
   (qa_source_documents result = None \<or> qa_source_documents result = Some [] \<longrightarrow>
      format_sources result = []) \<and>
   (qa_source_documents result = Some docs \<longrightarrow>
      format_sources result = map source_info docs) \<and>
   (strip (doc_id request) \<noteq> [] \<and> strip (question request) \<noteq> [] \<and>
    build_qa_chain sv (doc_id request) = Inr r \<and>
    qa_chain_invoke sv store r (question request) = Inr result \<longrightarrow>
      chat_with_doc sv store request =
        Inr \<lparr>answer = qa_answer result, sources = format_sources result\<rparr>) \<and>
   (chat_with_doc sv store request = Inr response \<longrightarrow>
      sources response =
        map source_info
          (similarity_search sv store
             \<lparr>search_k = 5, search_filter = [(''doc_id'', Eq (MStr (doc_id request)))]\<rparr>
             (question request)))"
proof (intro conjI impI)
  assume "strip (doc_id request) \<noteq> [] \<and> strip (question request) \<noteq> [] \<and>
    build_qa_chain sv (doc_id request) = Inr r \<and>
    qa_chain_invoke sv store r (question request) = Inr result"
  then show "chat_with_doc sv store request =
        Inr \<lparr>answer = qa_answer result, sources = format_sources result\<rparr>"
    by (simp add: chat_with_doc_formats_result)
next
  assume "chat_with_doc sv store request = Inr response"
  then show "sources response =
        map source_info
          (similarity_search sv store
             \<lparr>search_k = 5, search_filter = [(''doc_id'', Eq (MStr (doc_id request)))]\<rparr>
             (question request))"
    by (rule chat_with_doc_Inr(1))
qed (auto simp: source_info_def format_sources_def)

theorem missing_metadata_cited_as_NA_witness:
  "metadata (two_doc_store ! 2) ''page_number'' = None \<and>
   build_qa_chain demo_services (lit ''d1'') =
     Inr \<lparr>search_k = 5, search_filter = [(''doc_id'', Eq (MStr (lit ''d1'')))]\<rparr> \<and>
   qa_chain_invoke demo_services two_doc_store
     \<lparr>search_k = 5, search_filter = [(''doc_id'', Eq (MStr (lit ''d1'')))]\<rparr>
     (lit ''What is the summary?'') =
     Inr \<lparr>qa_answer = lit ''Sales grew.'',
          qa_source_documents = Some [two_doc_store ! 0, two_doc_store ! 2]\<rparr> \<and>
   chat_with_doc demo_services two_doc_store (summary_request (lit ''d1'')) =
     Inr \<lparr>answer = lit ''Sales grew.'',
          sources = [source_info (two_doc_store ! 0), source_info (two_doc_store ! 2)]\<rparr> \<and>
   source_info (two_doc_store ! 2) ''page_number'' = Some (MStr (lit ''N/A'')) \<and>
   [source_info (two_doc_store ! 0), source_info (two_doc_store ! 2)] =
     map source_info
       (similarity_search demo_services two_doc_store
          \<lparr>search_k = 5, search_filter = [(''doc_id'', Eq (MStr (lit ''d1'')))]\<rparr>
          (lit ''What is the summary?'')) \<and>
   metadata loose_chunk ''doc_id'' = None \<and>
   source_info loose_chunk ''doc_id'' = Some (MStr (lit ''N/A'')) \<and>
   format_sources \<lparr>qa_answer = lit ''Sales grew.'', qa_source_documents = Some [loose_chunk]\<rparr> =
     [source_info loose_chunk] \<and>
   qa_chain_invoke demo_services two_doc_store
     \<lparr>search_k = 5, search_filter = [(''doc_id'', Eq (MStr (lit ''d3'')))]\<rparr>
     (lit ''What is the summary?'') =
     Inr \<lparr>qa_answer = lit ''Sales grew.'', qa_source_documents = Some []\<rparr> \<and>
   format_sources \<lparr>qa_answer = lit ''Sales grew.'', qa_source_documents = Some []\<rparr> = [] \<and>
   chat_with_doc demo_services two_doc_store (summary_request (lit ''d3'')) =
     Inr \<lparr>answer = lit ''Sales grew.'', sources = []\<rparr>"
proof -
  let ?r1 = "\<lparr>search_k = 5, search_filter = [(''doc_id'', Eq (MStr (lit ''d1'')))]\<rparr>"
  let ?r3 = "\<lparr>search_k = 5, search_filter = [(''doc_id'', Eq (MStr (lit ''d3'')))]\<rparr>"
  let ?q = "lit ''What is the summary?''"
  let ?docs = "[two_doc_store ! 0, two_doc_store ! 2]"
  let ?result1 = "\<lparr>qa_answer = lit ''Sales grew.'', qa_source_documents = Some ?docs\<rparr>"
  let ?result3 = "\<lparr>qa_answer = lit ''Sales grew.'', qa_source_documents = Some []\<rparr>"
  let ?loose = "\<lparr>qa_answer = lit ''Sales grew.'', qa_source_documents = Some [loose_chunk]\<rparr>"
  let ?response1 = "\<lparr>answer = lit ''Sales grew.'',
                     sources = [source_info (two_doc_store ! 0), source_info (two_doc_store ! 2)]\<rparr>"
  have p: "metadata (two_doc_store ! 2) ''page_number'' = None"
    by (simp add: two_doc_store_def)
  have d: "metadata loose_chunk ''doc_id'' = None"
    by (simp add: loose_chunk_def)
  have b1: "build_qa_chain demo_services (lit ''d1'') = Inr ?r1"
    and b3: "build_qa_chain demo_services (lit ''d3'') = Inr ?r3"
    by (simp_all add: demo_eval)
  have q1: "qa_chain_invoke demo_services two_doc_store ?r1 ?q = Inr ?result1"
    and q3: "qa_chain_invoke demo_services two_doc_store ?r3 ?q = Inr ?result3"
    by (simp_all add: demo_eval two_doc_store_def)
  have n: "strip (lit ''d1'') \<noteq> []" "strip (lit ''d3'') \<noteq> []" "strip ?q \<noteq> []"
    by (simp_all add: strip_def isspace_def lit_def)
  have s1: "strip (doc_id (summary_request (lit ''d1''))) \<noteq> [] \<and>
            strip (question (summary_request (lit ''d1''))) \<noteq> [] \<and>
            build_qa_chain demo_services (doc_id (summary_request (lit ''d1''))) = Inr ?r1 \<and>
            qa_chain_invoke demo_services two_doc_store ?r1
              (question (summary_request (lit ''d1''))) = Inr ?result1"
    using b1 q1 n by (simp add: summary_request_def)
  have s3: "strip (doc_id (summary_request (lit ''d3''))) \<noteq> [] \<and>
            strip (question (summary_request (lit ''d3''))) \<noteq> [] \<and>
            build_qa_chain demo_services (doc_id (summary_request (lit ''d3''))) = Inr ?r3 \<and>
            qa_chain_invoke demo_services two_doc_store ?r3
              (question (summary_request (lit ''d3''))) = Inr ?result3"
    using b3 q3 n by (simp add: summary_request_def)
  note t1 = missing_metadata_cited_as_NA
    [where doc = "two_doc_store ! 2" and result = ?result1 and docs = ?docs
       and request = "summary_request (lit ''d1'')" and sv = demo_services and r = ?r1
       and store = two_doc_store and response = ?response1]
  note t2 = missing_metadata_cited_as_NA
    [where doc = loose_chunk and result = ?loose and docs = "[loose_chunk]"]
  note t3 = missing_metadata_cited_as_NA
    [where result = ?result3 and request = "summary_request (lit ''d3'')" and sv = demo_services
       and r = ?r3 and store = two_doc_store]
  from t1 p have na1: "source_info (two_doc_store ! 2) ''page_number'' = Some (MStr (lit ''N/A''))"
    by blast
  from t1 s1 have "format_sources ?result1 = map source_info ?docs \<and>
        chat_with_doc demo_services two_doc_store (summary_request (lit ''d1'')) =
          Inr \<lparr>answer = qa_answer ?result1, sources = format_sources ?result1\<rparr>"
    by simp
  then have c1: "chat_with_doc demo_services two_doc_store (summary_request (lit ''d1'')) =
                   Inr ?response1"
    by simp
  from t1 c1 have "sources ?response1 =
        map source_info
          (similarity_search demo_services two_doc_store
             \<lparr>search_k = 5,
              search_filter = [(''doc_id'', Eq (MStr (doc_id (summary_request (lit ''d1'')))))]\<rparr>
             (question (summary_request (lit ''d1''))))"
    by blast
  then have m1: "[source_info (two_doc_store ! 0), source_info (two_doc_store ! 2)] =
     map source_info (similarity_search demo_services two_doc_store ?r1 ?q)"
    by (simp add: summary_request_def)
  from t2 d have na2: "source_info loose_chunk ''doc_id'' = Some (MStr (lit ''N/A''))"
    by blast
  from t2 have f2: "format_sources ?loose = [source_info loose_chunk]"
    by simp
  from t3 s3 have "format_sources ?result3 = [] \<and>
        chat_with_doc demo_services two_doc_store (summary_request (lit ''d3'')) =
          Inr \<lparr>answer = qa_answer ?result3, sources = format_sources ?result3\<rparr>"
    by simp
  then have f3: "format_sources ?result3 = []"
    and c3: "chat_with_doc demo_services two_doc_store (summary_request (lit ''d3'')) =
               Inr \<lparr>answer = lit ''Sales grew.'', sources = []\<rparr>"
    by simp_all
  from p b1 q1 c1 na1 m1 d na2 f2 q3 f3 c3 show ?thesis by blast
qed

section \<open>Where the endpoints answer with an error\<close>

lemma upload_pdf_rejects_other_types:
  "content_type f \<noteq> Some (lit ''application/pdf'') \<Longrightarrow>
   upload_pdf sv store f fresh_uuid = Some (Inl (HTTPException 400 must_be_pdf), store)"
  by (simp add: upload_pdf_def)

lemma upload_pdf_save_fails:
  "content_type f = Some (lit ''application/pdf'') \<Longrightarrow>
   save_fault sv (filename f) (file_stream f) = Some e \<Longrightarrow>
   upload_pdf sv store f fresh_uuid =
     Some (Inl (HTTPException 500 (upload_error_message e)), store)"
  by (simp add: upload_pdf_def)

text \<open>
  C2. An upload of type \<open>application/pdf\<close> with no bytes, when writing its (empty)
  temporary file succeeds: the \<open>HTTPException\<close> with status 400 raised by the empty-file
  check is caught by the \<open>except Exception\<close> clause of the same \<open>try\<close> block, and the
  response is status 500 with the wrapped text. The index is left as it was. (When
  writing the file fails the response is status 500 as well, \<open>upload_pdf_save_fails\<close>.)
\<close>

theorem empty_pdf_is_answered_with_500:
  "upload_pdf (sv\<lparr>save_fault := (\<lambda>n b. None)\<rparr>) store
     \<lparr>content_type = Some (lit ''application/pdf''), filename = name, file_stream = []\<rparr>
     fresh_uuid =
   Some (Inl (HTTPException 500
                (lit ''Erreur lors du traitement du PDF: 400: Le fichier PDF est vide'')),
         store)"
  by (simp add: upload_pdf_def upload_error_message_def str_exc_def lit_def lower_def lower_cp_def)

text \<open>
  C3. A question about document \<open>d3\<close>, of which the index holds no chunk, with every
  external call answering: the filter matches nothing, nothing is raised, the completion
  model is asked with an empty context, and the response is a success with no citations.
  It is not the status 500 with the message that the document with this \<open>doc_id\<close> was
  not found, which the handler keeps for this case.
\<close>

theorem unknown_doc_id_is_answered_with_success:
  "filter (\<lambda>c. metadata c ''doc_id'' = Some (MStr (lit ''d3''))) two_doc_store = [] \<and>
   chat_with_doc demo_services two_doc_store (summary_request (lit ''d3'')) =
     Inr \<lparr>answer = lit ''Sales grew.'', sources = []\<rparr> \<and>
   chat_with_doc demo_services two_doc_store (summary_request (lit ''d3'')) \<noteq>
     Inl (HTTPException 500 (document_not_found (lit ''d3'')))"
  by (simp add: demo_eval two_doc_store_def)

lemma strip_nonempty: "strip s \<noteq> [] \<Longrightarrow> s \<noteq> []"
  by (auto simp: strip_def)

lemma similarity_search_unknown:
  assumes "\<And>c. c \<in> set store \<Longrightarrow> metadata c ''doc_id'' \<noteq> Some (MStr d)"
  shows "similarity_search sv store
           \<lparr>search_k = 5, search_filter = [(''doc_id'', Eq (MStr d))]\<rparr> q = []"
proof -
  from assms have "filter (matches [(''doc_id'', Eq (MStr d))]) store = []"
    by (simp add: matches_doc_id filter_empty_conv)
  then show ?thesis by (simp add: similarity_search_def)
qed

text \<open>
  The same for every index and every backend: a \<open>doc_id\<close> carried by no stored chunk is,
  when no external call fails, answered with the completion for an empty context and an
  empty list of citations.
\<close>

lemma unknown_doc_id_succeeds:
  assumes "strip (doc_id request) \<noteq> []" and "strip (question request) \<noteq> []"
    and "\<And>c. c \<in> set store \<Longrightarrow> metadata c ''doc_id'' \<noteq> Some (MStr (doc_id request))"
    and "PINE_CONE_AVAILABLE sv" and "from_existing_index sv = None"
    and "query_fault sv (question request) = None"
    and "llm sv (prompt (format_docs []) (question request)) = Inr a"
  shows "chat_with_doc sv store request = Inr \<lparr>answer = a, sources = []\<rparr>"
proof -
  from assms(1,2) have ne: "doc_id request \<noteq> []" "question request \<noteq> []"
    by (simp_all add: strip_nonempty)
  from assms(3) have s: "similarity_search sv store
      \<lparr>search_k = 5, search_filter = [(''doc_id'', Eq (MStr (doc_id request)))]\<rparr>
      (question request) = []"
    by (rule similarity_search_unknown)
  from assms ne s show ?thesis
    by (simp add: chat_with_doc_def build_qa_chain_def get_retriever_for_doc_def
        qa_chain_invoke_def retriever_invoke_def format_sources_def)
qed

text \<open>
  The message is given for an exception, raised while the chain is built or run, whose
  lower-cased text contains \<open>index\<close> or \<open>not found\<close>, whatever its class and whether or
  not the document is stored.
\<close>

lemma document_not_found_answers_an_exception:
  assumes "strip (doc_id request) \<noteq> []" and "strip (question request) \<noteq> []"
    and "build_qa_chain sv (doc_id request) = Inl e \<or>
         build_qa_chain sv (doc_id request) = Inr r \<and>
         qa_chain_invoke sv store r (question request) = Inl e"
    and "contains (lit ''index'') (lower (str_exc e)) \<or>
         contains (lit ''not found'') (lower (str_exc e))"
  shows "chat_with_doc sv store request =
           Inl (HTTPException 500 (document_not_found (doc_id request)))"
proof -
  from assms(1,2) have ne: "doc_id request \<noteq> []" "question request \<noteq> []"
    by (simp_all add: strip_nonempty)
  from assms(4) have d: "chat_error_detail (doc_id request) e = document_not_found (doc_id request)"
    by (auto simp: chat_error_detail_def)
  from assms(3) show ?thesis
  proof
    assume "build_qa_chain sv (doc_id request) = Inl e"
    with assms(1,2) ne d show ?thesis by (simp add: chat_with_doc_def)
  next
    assume "build_qa_chain sv (doc_id request) = Inr r \<and>
            qa_chain_invoke sv store r (question request) = Inl e"
    with assms(1,2) ne d show ?thesis by (simp add: chat_with_doc_def)
  qed
qed

text \<open>The page number of a tagged page: the loader's \<open>page\<close> entry, else the position.\<close>

lemma tag_pages_page_number:
  assumes "i < length pages"
  shows "metadata (tag_pages d pages ! i) ''page_number'' =
           Some (case metadata (pages ! i) ''page'' of
                   Some v \<Rightarrow> v
                 | None \<Rightarrow> MInt (int i + 1))"
  using assms by (simp add: tag_pages_def nth_upt del: upt_Suc split: option.splits)

text \<open>
  C6. The three pages of \<open>report.pdf\<close>, as the loader reads them, are uploaded and get the
  \<open>doc_id\<close> \<open>d1\<close>; the question about \<open>d1\<close> is then answered with a non-empty answer and
  three citations, all with \<open>doc_id\<close> \<open>d1\<close>, whose page numbers are 0, 1 and 2: the
  loader's \<open>page\<close> entry is taken as it is, and it counts from 0.
\<close>

theorem report_is_cited_with_pages_from_0:
  "upload_pdf demo_services [] (pdf_upload [37, 80, 68, 70]) (lit ''d1'') =
     Some (Inr \<lparr>up_doc_id = lit ''d1'',
                up_message = lit ''PDF trait'' @ [233] @ lit '' et ing'' @ [233] @ lit ''r'' @ [233] @
                             lit '' avec succ'' @ [232] @ lit ''s dans Azure OpenAI + Pinecone'',
                up_filename = lit ''report.pdf''\<rparr>,
           make_chunks demo_services (lit ''d1'') report_pages) \<and>
   chat_with_doc demo_services (make_chunks demo_services (lit ''d1'') report_pages)
       (summary_request (lit ''d1'')) =
     Inr \<lparr>answer = lit ''Sales grew.'',
          sources = map source_info (make_chunks demo_services (lit ''d1'') report_pages)\<rparr> \<and>
   map (\<lambda>s. s ''page_number'')
       (map source_info (make_chunks demo_services (lit ''d1'') report_pages)) =
     [Some (MInt 0), Some (MInt 1), Some (MInt 2)] \<and>
   map (\<lambda>s. s ''doc_id'')
       (map source_info (make_chunks demo_services (lit ''d1'') report_pages)) =
     [Some (MStr (lit ''d1'')), Some (MStr (lit ''d1'')), Some (MStr (lit ''d1''))]"
proof -
  have u: "upload_pdf demo_services [] (pdf_upload [37, 80, 68, 70]) (lit ''d1'') =
     Some (Inr \<lparr>up_doc_id = lit ''d1'',
                up_message = lit ''PDF trait'' @ [233] @ lit '' et ing'' @ [233] @ lit ''r'' @ [233] @
                             lit '' avec succ'' @ [232] @ lit ''s dans Azure OpenAI + Pinecone'',
                up_filename = lit ''report.pdf''\<rparr>,
           make_chunks demo_services (lit ''d1'') report_pages)"
    by (simp add: upload_pdf_def pdf_upload_def ingest_eval)
  have c: "chat_with_doc demo_services (make_chunks demo_services (lit ''d1'') report_pages)
       (summary_request (lit ''d1'')) =
     Inr \<lparr>answer = lit ''Sales grew.'',
          sources = map source_info (make_chunks demo_services (lit ''d1'') report_pages)\<rparr>"
    by (simp add: demo_eval make_chunks_def split_documents_def tag_pages_def report_pages_def
        setdefault_doc_id_def upt_rec)
  have p: "map (\<lambda>s. s ''page_number'')
       (map source_info (make_chunks demo_services (lit ''d1'') report_pages)) =
     [Some (MInt 0), Some (MInt 1), Some (MInt 2)]"
    by (simp add: demo_services_def make_chunks_def split_documents_def tag_pages_def
        report_pages_def setdefault_doc_id_def source_info_def upt_rec)
  have d: "map (\<lambda>s. s ''doc_id'')
       (map source_info (make_chunks demo_services (lit ''d1'') report_pages)) =
     [Some (MStr (lit ''d1'')), Some (MStr (lit ''d1'')), Some (MStr (lit ''d1''))]"
    by (simp add: demo_services_def make_chunks_def split_documents_def tag_pages_def
        report_pages_def setdefault_doc_id_def source_info_def upt_rec)
  from u c p d show ?thesis by blast
qed

section \<open>Properties of the Gateway\<close>

text \<open>
  C7. With no \<open>doc_id\<close> in the session, \<open>chat\<close> answers status 400 with the message that
  a PDF must be uploaded first and makes no backend call, whatever the request body and
  the backend; the session left by \<open>reset_session\<close> is such a session.
\<close>

theorem chat_without_document_makes_no_call:
  "(session ''doc_id'' = None \<longrightarrow>
      chat backend timestamp session data = (Inr (jsonify_error upload_first, 400), [])) \<and>
   chat backend timestamp (fst (reset_session earlier_session)) data =
     (Inr (jsonify_error upload_first, 400), [])"
  by (simp add: chat_def reset_session_def)

theorem chat_without_document_makes_no_call_witness:
  "[''filename'' \<mapsto> JStr (lit ''report.pdf'')] ''doc_id'' = None \<and>
   chat healthy_backend (lit ''12:00:00'') [''filename'' \<mapsto> JStr (lit ''report.pdf'')] demo_body =
     (Inr (jsonify_error upload_first, 400), []) \<and>
   chat healthy_backend (lit ''12:00:00'') (fst (reset_session demo_session)) demo_body =
     (Inr (jsonify_error upload_first, 400), [])"
proof -
  have n: "[''filename'' \<mapsto> JStr (lit ''report.pdf'')] ''doc_id'' = None" by simp
  from chat_without_document_makes_no_call
    [of "[''filename'' \<mapsto> JStr (lit ''report.pdf'')]" healthy_backend "lit ''12:00:00''"
        demo_body demo_session] n
  show ?thesis by blast
qed

lemma chat_forwards:
  assumes "session ''doc_id'' = Some sid"
    and "map_of kvs ''question'' = Some (JStr q)"
    and "strip q \<noteq> []"
  shows "chat backend timestamp session (JObj kvs) =
           (Inr (fst (chat_try backend timestamp sid (JObj kvs) (strip q))),
            snd (chat_try backend timestamp sid (JObj kvs) (strip q)))"
  using assms by (simp add: chat_def py_get_def py_strip_def split: prod.splits)

lemma chat_try_raised:
  assumes "backend (chat_call sid qt (case map_of kvs ''history'' of Some v \<Rightarrow> v | None \<Rightarrow> JArr [])) =
             Raised e"
  shows "chat_try backend timestamp sid (JObj kvs) qt =
           (chat_except e,
            [chat_call sid qt (case map_of kvs ''history'' of Some v \<Rightarrow> v | None \<Rightarrow> JArr [])])"
  using assms by (simp add: chat_try_def py_get_def Let_def)

lemma chat_try_calls:
  "snd (chat_try backend timestamp sid (JObj kvs) qt) =
     [chat_call sid qt (case map_of kvs ''history'' of Some v \<Rightarrow> v | None \<Rightarrow> JArr [])]"
  by (simp add: chat_try_def py_get_def Let_def)

text \<open>
  C8. A chat request with a document in the session and a non-blank question makes
  exactly one backend call, with \<open>timeout = 30\<close>. When that call raises a timeout the
  answer is status 408 with the too-long message, when it raises a connection error the
  answer is status 500 with the cannot-connect message; both are JSON objects with the
  single key \<open>error\<close>, and they differ.
\<close>

theorem chat_timeout_and_connection_error:
  assumes "session ''doc_id'' = Some sid"
    and "map_of kvs ''question'' = Some (JStr q)"
    and "strip q \<noteq> []"
    and "call = chat_call sid (strip q)
                  (case map_of kvs ''history'' of Some v \<Rightarrow> v | None \<Rightarrow> JArr [])"
  shows "snd (chat backend timestamp session (JObj kvs)) = [call] \<and>
         call_timeout call = Some 30 \<and>
         (backend call = Raised (Timeout m) \<longrightarrow>
            fst (chat backend timestamp session (JObj kvs)) =
              Inr (JObj [(''error'', JStr request_too_long)], 408)) \<and>
         (backend call = Raised (ConnectTimeout m) \<longrightarrow>
            fst (chat backend timestamp session (JObj kvs)) =
              Inr (JObj [(''error'', JStr request_too_long)], 408)) \<and>
         (backend call = Raised (ConnectionError m) \<longrightarrow>
            fst (chat backend timestamp session (JObj kvs)) =
              Inr (JObj [(''error'', JStr cannot_connect)], 500)) \<and>
         request_too_long \<noteq> cannot_connect"
proof (intro conjI impI)
  have fwd: "chat backend timestamp session (JObj kvs) =
           (Inr (fst (chat_try backend timestamp sid (JObj kvs) (strip q))),
            snd (chat_try backend timestamp sid (JObj kvs) (strip q)))"
    using assms(1-3)
      chat_forwards [where session = session and sid = sid and kvs = kvs and q = q
                       and backend = backend and timestamp = timestamp]
    by blast
  show "snd (chat backend timestamp session (JObj kvs)) = [call]"
    using chat_try_calls [of backend timestamp sid kvs "strip q"] assms(4)
    by (simp add: fwd)
  show "call_timeout call = Some 30"
    using assms(4) by (simp add: chat_call_def)
  show "request_too_long \<noteq> cannot_connect"
    by (simp add: request_too_long_def cannot_connect_def lit_def)
  {
    fix e assume "backend call = Raised e"
    with assms(4) have "chat_try backend timestamp sid (JObj kvs) (strip q) = (chat_except e, [call])"
      by (simp add: chat_try_raised)
    then have "fst (chat backend timestamp session (JObj kvs)) = Inr (chat_except e)"
      by (simp add: fwd)
  }
  note raised = this
  show "fst (chat backend timestamp session (JObj kvs)) =
          Inr (JObj [(''error'', JStr request_too_long)], 408)"
    if "backend call = Raised (Timeout m)"
    using raised [OF that] by (simp add: chat_except_def jsonify_error_def)
  show "fst (chat backend timestamp session (JObj kvs)) =
          Inr (JObj [(''error'', JStr request_too_long)], 408)"
    if "backend call = Raised (ConnectTimeout m)"
    using raised [OF that] by (simp add: chat_except_def jsonify_error_def)
  show "fst (chat backend timestamp session (JObj kvs)) =
          Inr (JObj [(''error'', JStr cannot_connect)], 500)"
    if "backend call = Raised (ConnectionError m)"
    using raised [OF that] by (simp add: chat_except_def jsonify_error_def)
qed

theorem chat_timeout_and_connection_error_witness:
  "demo_session ''doc_id'' = Some (JStr (lit ''d1'')) \<and>
   map_of [(''question'', JStr (lit '' What is the summary? ''))] ''question'' =
     Some (JStr (lit '' What is the summary? '')) \<and>
   strip (lit '' What is the summary? '') = lit ''What is the summary?'' \<and>
   timing_out_backend (chat_call (JStr (lit ''d1'')) (lit ''What is the summary?'') (JArr [])) =
     Raised (Timeout (lit ''Read timed out. (read timeout=30)'')) \<and>
   refusing_backend (chat_call (JStr (lit ''d1'')) (lit ''What is the summary?'') (JArr [])) =
     Raised (ConnectionError (lit ''Connection refused'')) \<and>
   chat timing_out_backend (lit ''12:00:00'') demo_session demo_body =
     (Inr (JObj [(''error'', JStr request_too_long)], 408),
      [chat_call (JStr (lit ''d1'')) (lit ''What is the summary?'') (JArr [])]) \<and>
   chat refusing_backend (lit ''12:00:00'') demo_session demo_body =
     (Inr (JObj [(''error'', JStr cannot_connect)], 500),
      [chat_call (JStr (lit ''d1'')) (lit ''What is the summary?'') (JArr [])]) \<and>
   call_timeout (chat_call (JStr (lit ''d1'')) (lit ''What is the summary?'') (JArr [])) = Some 30"
proof -
  let ?kvs = "[(''question'', JStr (lit '' What is the summary? ''))]"
  let ?call = "chat_call (JStr (lit ''d1'')) (lit ''What is the summary?'') (JArr [])"
  have s: "demo_session ''doc_id'' = Some (JStr (lit ''d1''))"
    by (simp add: demo_session_def)
  have q: "map_of ?kvs ''question'' = Some (JStr (lit '' What is the summary? ''))"
    by simp
  have st: "strip (lit '' What is the summary? '') = lit ''What is the summary?''"
    by (simp add: strip_def isspace_def lit_def)
  then have ne: "strip (lit '' What is the summary? '') \<noteq> []"
    by (simp add: lit_def)
  have c: "?call = chat_call (JStr (lit ''d1'')) (strip (lit '' What is the summary? ''))
                     (case map_of ?kvs ''history'' of Some v \<Rightarrow> v | None \<Rightarrow> JArr [])"
    by (simp add: st)
  have bt: "timing_out_backend ?call = Raised (Timeout (lit ''Read timed out. (read timeout=30)''))"
    by (simp add: timing_out_backend_def)
  have br: "refusing_backend ?call = Raised (ConnectionError (lit ''Connection refused''))"
    by (simp add: refusing_backend_def)
  from chat_timeout_and_connection_error
    [where session = demo_session and sid = "JStr (lit ''d1'')" and kvs = ?kvs
       and q = "lit '' What is the summary? ''" and call = ?call
       and backend = timing_out_backend and timestamp = "lit ''12:00:00''"
       and m = "lit ''Read timed out. (read timeout=30)''"] s q ne c bt
  have t: "snd (chat timing_out_backend (lit ''12:00:00'') demo_session (JObj ?kvs)) = [?call]"
          "fst (chat timing_out_backend (lit ''12:00:00'') demo_session (JObj ?kvs)) =
             Inr (JObj [(''error'', JStr request_too_long)], 408)"
          "call_timeout ?call = Some 30"
    by blast+
  from chat_timeout_and_connection_error
    [where session = demo_session and sid = "JStr (lit ''d1'')" and kvs = ?kvs
       and q = "lit '' What is the summary? ''" and call = ?call
       and backend = refusing_backend and timestamp = "lit ''12:00:00''"
       and m = "lit ''Connection refused''"] s q ne c br
  have r: "snd (chat refusing_backend (lit ''12:00:00'') demo_session (JObj ?kvs)) = [?call]"
          "fst (chat refusing_backend (lit ''12:00:00'') demo_session (JObj ?kvs)) =
             Inr (JObj [(''error'', JStr cannot_connect)], 500)"
    by blast+
  from t(1,2) have t': "chat timing_out_backend (lit ''12:00:00'') demo_session demo_body =
     (Inr (JObj [(''error'', JStr request_too_long)], 408), [?call])"
    unfolding demo_body_def by (simp add: prod_eq_iff)
  from r(1,2) have r': "chat refusing_backend (lit ''12:00:00'') demo_session demo_body =
     (Inr (JObj [(''error'', JStr cannot_connect)], 500), [?call])"
    unfolding demo_body_def by (simp add: prod_eq_iff)
  from s q st bt br t' r' t(3) show ?thesis by blast
qed

text \<open>
  What the Gateway's health check answers: \<open>frontend\<close> is always reported healthy. When
  the backend health call raises, whatever the exception, the backend is reported
  unreachable and the status is 503. When the call returns a response, the four-field
  structure is returned with status 200; its \<open>backend\<close> field is \<open>healthy\<close> exactly
  when the response has status 200.
\<close>

lemma health_check_cases:
  "(backend health_call = Raised e \<longrightarrow>
      health_check backend timestamp =
        ((JObj [(''frontend'', JStr (lit ''healthy'')),
                (''backend'', JStr (lit ''unreachable'')),
                (''backend_url'', JStr BACKEND_API_URL),
                (''timestamp'', JStr timestamp)], 503), [health_call])) \<and>
   (backend health_call = Responded status_code body \<longrightarrow>
      health_check backend timestamp =
        ((JObj [(''frontend'', JStr (lit ''healthy'')),
                (''backend'', JStr (if status_code = 200 then lit ''healthy''
                                    else lit ''unreachable'')),
                (''backend_url'', JStr BACKEND_API_URL),
                (''timestamp'', JStr timestamp)], 200), [health_call])) \<and>
   py_getitem (fst (fst (health_check backend timestamp))) ''frontend'' =
     Inr (JStr (lit ''healthy''))"
  by (cases "backend health_call")
     (simp_all add: health_check_def health_body_def py_getitem_def Let_def)

text \<open>
  C9. A backend that answers the health call with status 500: the Gateway reports the
  backend \<open>unreachable\<close>, but with status 200. A backend that refuses the connection is
  reported \<open>unreachable\<close> with status 503. In both cases the Gateway answers and reports
  itself healthy.
\<close>

theorem failed_health_call_is_answered_with_200:
  "health_check failing_backend timestamp =
     ((JObj [(''frontend'', JStr (lit ''healthy'')),
             (''backend'', JStr (lit ''unreachable'')),
             (''backend_url'', JStr BACKEND_API_URL),
             (''timestamp'', JStr timestamp)], 200), [health_call]) \<and>
   health_check refusing_backend timestamp =
     ((JObj [(''frontend'', JStr (lit ''healthy'')),
             (''backend'', JStr (lit ''unreachable'')),
             (''backend_url'', JStr BACKEND_API_URL),
             (''timestamp'', JStr timestamp)], 503), [health_call])"
  by (simp add: health_check_def health_body_def failing_backend_def refusing_backend_def Let_def)

end
